theory Spec2Isabelle
  imports Main
begin

section \<open>Values of the host language\<close>

text \<open>
  A JavaScript string is a \<open>string\<close>; a character stands for one code unit below 256.
  An optional property (\<open>profile?: string\<close>, a key of \<open>process.env\<close>, a key of a parsed
  JSON object) is a \<open>string option\<close>, \<open>None\<close> being \<open>undefined\<close>.  An object whose
  properties are strings is a map from property names to strings.
\<close>

type_synonym jsobject = "string \<rightharpoonup> string"

text \<open>Truthiness of an optional string: \<open>undefined\<close> and the empty string are falsy.\<close>

fun truthy :: "string option \<Rightarrow> bool" where
  "truthy None = False"
| "truthy (Some s) = (s \<noteq> [])"

text \<open>
  What a \<open>throw\<close> or a rejected promise carries: an instance of \<open>Error\<close> with its
  message, or any other value.
\<close>

datatype thrown = Error string | NonError

text \<open>\<open>error instanceof Error ? error.message : 'Unknown error'\<close>\<close>

fun messageOf :: "thrown \<Rightarrow> string" where
  "messageOf (Error m) = m"
| "messageOf NonError = ''Unknown error''"

subsection \<open>String methods\<close>

definition startsWith :: "string \<Rightarrow> string \<Rightarrow> bool" where
  "startsWith s p = (take (length p) s = p)"

definition endsWith :: "string \<Rightarrow> string \<Rightarrow> bool" where
  "endsWith s p = (length p \<le> length s \<and> drop (length s - length p) s = p)"

fun includes_str :: "string \<Rightarrow> string \<Rightarrow> bool" where
  "includes_str [] p = (p = [])"
| "includes_str (c # cs) p = (startsWith (c # cs) p \<or> includes_str cs p)"

text \<open>
  The white space \<open>String.prototype.trim\<close> strips, among the code units below 256:
  tab, line feed, vertical tab, form feed, carriage return, space, no-break space.
\<close>

definition isWhiteSpace :: "char \<Rightarrow> bool" where
  "isWhiteSpace c = (of_char c \<in> {9, 10, 11, 12, 13, 32, 160 :: nat})"

definition trim :: "string \<Rightarrow> string" where
  "trim s = rev (dropWhile isWhiteSpace (rev (dropWhile isWhiteSpace s)))"

text \<open>\<open>s.split('\n')\<close>: the pieces between line feeds; the empty string gives one empty piece.\<close>

fun split_lines :: "string \<Rightarrow> string list" where
  "split_lines [] = [[]]"
| "split_lines (c # cs) =
     (if c = CHR 0x0A then [] # split_lines cs
      else (case split_lines cs of [] \<Rightarrow> [[c]] | l # ls \<Rightarrow> (c # l) # ls))"

text \<open>\<open>s.slice(9, -1)\<close>: from index 9 up to, and without, the last code unit.\<close>

definition slice_9_m1 :: "string \<Rightarrow> string" where
  "slice_9_m1 s = drop 9 (butlast s)"

section \<open>The outside world and the requests sent to it\<close>

text \<open>\<open>AwsCredentialIdentity\<close> objects, as the SDK hands them over and as object literals build them.\<close>

type_synonym AwsCredentialIdentity = jsobject

text \<open>The answer of \<open>GetCallerIdentityCommand\<close>.\<close>

record CallerIdentity =
  Account :: "string option"
  Arn :: "string option"
  UserId :: "string option"

text \<open>
  Every call that leaves the process is recorded: file system, environment variables,
  subprocess, HTTP, the SDK's credential providers and the STS client.
\<close>

datatype request =
    ExistsSync string
  | ReadFileSync string
  | GetEnv string
  | Exec string
  | Fetch string
  | FromNodeProviderChain string
  | FromIni string string
  | FromSSO string "string option" "string option" "string option" string
  | GetCallerIdentity string AwsCredentialIdentity

text \<open>
  The world answers each call; the answer may depend on everything requested so far, so
  that the same call can be answered differently the second time.
\<close>

record world =
  fs_existsSync :: "request list \<Rightarrow> string \<Rightarrow> bool"
  fs_readFileSync :: "request list \<Rightarrow> string \<Rightarrow> thrown + string"
  process_env :: "request list \<Rightarrow> string \<Rightarrow> string option"
  child_exec :: "request list \<Rightarrow> string \<Rightarrow> thrown + string"
  fetch_ok :: "request list \<Rightarrow> string \<Rightarrow> thrown + bool"
  nodeProviderChain :: "request list \<Rightarrow> string \<Rightarrow> thrown + AwsCredentialIdentity"
  iniProvider :: "request list \<Rightarrow> string \<Rightarrow> string \<Rightarrow> thrown + AwsCredentialIdentity"
  ssoProvider :: "request list \<Rightarrow> string \<Rightarrow> string option \<Rightarrow> string option \<Rightarrow> string option
                    \<Rightarrow> string \<Rightarrow> thrown + AwsCredentialIdentity"
  sts_send :: "request list \<Rightarrow> string \<Rightarrow> AwsCredentialIdentity \<Rightarrow> thrown + CallerIdentity"
  awsConfigPath :: string

section \<open>The credential service and its state\<close>

record EnvironmentInfo =
  isContainer :: bool
  isECS :: bool
  isEKS :: bool
  hasAwsCli :: bool
  hasIamRole :: bool

text \<open>
  The state of a run: the private field \<open>environmentInfo\<close> of the one service instance
  (\<open>None\<close> is \<open>null\<close>) and the requests issued so far.  Console output is left out.
\<close>

record state =
  environmentInfo :: "EnvironmentInfo option"
  trace :: "request list"

text \<open>A computation either throws or returns, and leaves a state.\<close>

type_synonym 'a io = "state \<Rightarrow> (thrown + 'a) \<times> state"

definition return :: "'a \<Rightarrow> 'a io" where
  "return x s = (Inr x, s)"

definition throw :: "thrown \<Rightarrow> 'a io" where
  "throw e s = (Inl e, s)"

definition bind :: "'a io \<Rightarrow> ('a \<Rightarrow> 'b io) \<Rightarrow> 'b io" where
  "bind m f s = (case m s of (Inl e, s') \<Rightarrow> (Inl e, s') | (Inr x, s') \<Rightarrow> f x s')"

definition tryCatch :: "'a io \<Rightarrow> (thrown \<Rightarrow> 'a io) \<Rightarrow> 'a io" where
  "tryCatch m h s = (case m s of (Inl e, s') \<Rightarrow> h e s' | (Inr x, s') \<Rightarrow> (Inr x, s'))"

definition perform :: "request \<Rightarrow> (request list \<Rightarrow> thrown + 'a) \<Rightarrow> 'a io" where
  "perform rq answer s = (answer (trace s), s\<lparr>trace := trace s @ [rq]\<rparr>)"

subsection \<open>Calls to the world\<close>

definition existsSync :: "world \<Rightarrow> string \<Rightarrow> bool io" where
  "existsSync w p = perform (ExistsSync p) (\<lambda>h. Inr (fs_existsSync w h p))"

definition readFileSync :: "world \<Rightarrow> string \<Rightarrow> string io" where
  "readFileSync w p = perform (ReadFileSync p) (\<lambda>h. fs_readFileSync w h p)"

definition getenv :: "world \<Rightarrow> string \<Rightarrow> string option io" where
  "getenv w n = perform (GetEnv n) (\<lambda>h. Inr (process_env w h n))"

definition execAsync :: "world \<Rightarrow> string \<Rightarrow> string io" where
  "execAsync w c = perform (Exec c) (\<lambda>h. child_exec w h c)"

definition fetch :: "world \<Rightarrow> string \<Rightarrow> bool io" where
  "fetch w u = perform (Fetch u) (\<lambda>h. fetch_ok w h u)"

definition fromNodeProviderChain :: "world \<Rightarrow> string \<Rightarrow> AwsCredentialIdentity io" where
  "fromNodeProviderChain w r = perform (FromNodeProviderChain r) (\<lambda>h. nodeProviderChain w h r)"

definition fromIni :: "world \<Rightarrow> string \<Rightarrow> string \<Rightarrow> AwsCredentialIdentity io" where
  "fromIni w p r = perform (FromIni p r) (\<lambda>h. iniProvider w h p r)"

definition fromSSO :: "world \<Rightarrow> string \<Rightarrow> string option \<Rightarrow> string option \<Rightarrow> string option
    \<Rightarrow> string \<Rightarrow> AwsCredentialIdentity io" where
  "fromSSO w u sr a rn r = perform (FromSSO u sr a rn r) (\<lambda>h. ssoProvider w h u sr a rn r)"

definition getCallerIdentity :: "world \<Rightarrow> string \<Rightarrow> AwsCredentialIdentity \<Rightarrow> CallerIdentity io" where
  "getCallerIdentity w r c = perform (GetCallerIdentity r c) (\<lambda>h. sts_send w h r c)"

subsection \<open>Environment detection\<close>

text \<open>
  \<open>fs.existsSync('/.dockerenv') || fs.existsSync('/proc/1/cgroup') &&
  fs.readFileSync('/proc/1/cgroup', 'utf8').includes('docker')\<close>, false when anything throws.
\<close>

definition isRunningInContainer :: "world \<Rightarrow> bool io" where
  "isRunningInContainer w =
     tryCatch
       (bind (existsSync w ''/.dockerenv'') (\<lambda>dockerenv.
          if dockerenv then return True
          else bind (existsSync w ''/proc/1/cgroup'') (\<lambda>cgroup.
            if \<not> cgroup then return False
            else bind (readFileSync w ''/proc/1/cgroup'') (\<lambda>content.
              return (includes_str content ''docker'')))))
       (\<lambda>_. return False)"

text \<open>
  \<open>!!(process.env.AWS_EXECUTION_ENV?.includes('ECS') || process.env.ECS_CONTAINER_METADATA_URI
  || process.env.ECS_CONTAINER_METADATA_URI_V4)\<close>
\<close>

definition isRunningInECS :: "world \<Rightarrow> bool io" where
  "isRunningInECS w =
     tryCatch
       (bind (getenv w ''AWS_EXECUTION_ENV'') (\<lambda>execEnv.
          if (case execEnv of None \<Rightarrow> False | Some v \<Rightarrow> includes_str v ''ECS'') then return True
          else bind (getenv w ''ECS_CONTAINER_METADATA_URI'') (\<lambda>uri.
            if truthy uri then return True
            else bind (getenv w ''ECS_CONTAINER_METADATA_URI_V4'') (\<lambda>uri4.
              return (truthy uri4)))))
       (\<lambda>_. return False)"

definition isRunningInEKS :: "world \<Rightarrow> bool io" where
  "isRunningInEKS w =
     tryCatch
       (bind (existsSync w ''/var/run/secrets/kubernetes.io/serviceaccount/token'') (\<lambda>token.
          if \<not> token then return False
          else bind (getenv w ''KUBERNETES_SERVICE_HOST'') (\<lambda>host. return (truthy host))))
       (\<lambda>_. return False)"

definition isAwsCliAvailable :: "world \<Rightarrow> bool io" where
  "isAwsCliAvailable w =
     tryCatch (bind (execAsync w ''aws --version'') (\<lambda>_. return True)) (\<lambda>_. return False)"

text \<open>
  The request to the instance metadata service; a request aborted by the one-second timer
  is a rejected \<open>fetch\<close>.
\<close>

definition hasIamRoleAttached :: "world \<Rightarrow> bool io" where
  "hasIamRoleAttached w =
     tryCatch
       (bind (fetch w ''http://169.254.169.254/latest/meta-data/iam/security-credentials/'')
          (\<lambda>ok. return ok))
       (\<lambda>_. return False)"

definition setEnvironmentInfo :: "EnvironmentInfo \<Rightarrow> unit io" where
  "setEnvironmentInfo env s = (Inr (), s\<lparr>environmentInfo := Some env\<rparr>)"

definition detectEnvironment :: "world \<Rightarrow> EnvironmentInfo io" where
  "detectEnvironment w s =
     (case environmentInfo s of
        Some env \<Rightarrow> return env s
      | None \<Rightarrow>
          bind (isRunningInContainer w) (\<lambda>c.
          bind (isRunningInECS w) (\<lambda>ecs.
          bind (isRunningInEKS w) (\<lambda>eks.
          bind (isAwsCliAvailable w) (\<lambda>cli.
          bind (hasIamRoleAttached w) (\<lambda>iam.
          let env = \<lparr>isContainer = c, isECS = ecs, isEKS = eks, hasAwsCli = cli,
                      hasIamRole = iam\<rparr>
          in bind (setEnvironmentInfo env) (\<lambda>_. return env)))))) s)"

subsection \<open>Credential resolution\<close>

datatype authType = Auto | SSO | Static

record AWSCredentialConfig =
  authType :: "authType option"
  region :: string
  profile :: "string option"
  ssoStartUrl :: "string option"
  ssoRegion :: "string option"
  ssoAccountId :: "string option"
  ssoRoleName :: "string option"
  accessKeyId :: "string option"
  secretAccessKey :: "string option"
  sessionToken :: "string option"
  roleArn :: "string option"
  externalId :: "string option"

definition validateCredentials :: "world \<Rightarrow> AwsCredentialIdentity \<Rightarrow> string \<Rightarrow> unit io" where
  "validateCredentials w credentials rgn =
     tryCatch
       (bind (getCallerIdentity w rgn credentials) (\<lambda>_. return ()))
       (\<lambda>error. throw (Error (''Credential validation failed: '' @ messageOf error)))"

definition getProductionCredentials :: "world \<Rightarrow> AWSCredentialConfig \<Rightarrow> AwsCredentialIdentity io" where
  "getProductionCredentials w config =
     bind (fromNodeProviderChain w (region config)) (\<lambda>credentials.
     bind (validateCredentials w credentials (region config)) (\<lambda>_.
     return credentials))"

text \<open>Where a branch is guarded by \<open>truthy\<close>, \<open>the\<close> reads the string that is there.\<close>

definition getDevelopmentSSOCredentials :: "world \<Rightarrow> AWSCredentialConfig \<Rightarrow> AwsCredentialIdentity io" where
  "getDevelopmentSSOCredentials w config =
     (if truthy (profile config) then fromIni w (the (profile config)) (region config)
      else if truthy (ssoStartUrl config) then
        fromSSO w (the (ssoStartUrl config)) (ssoRegion config) (ssoAccountId config)
          (ssoRoleName config) (region config)
      else throw (Error ''SSO configuration requires either profile or SSO details''))"

definition getFallbackCredentials :: "world \<Rightarrow> AWSCredentialConfig \<Rightarrow> AwsCredentialIdentity io" where
  "getFallbackCredentials w config =
     (if truthy (accessKeyId config) \<and> truthy (secretAccessKey config) then
        return (Map.empty(''accessKeyId'' := accessKeyId config,
                          ''secretAccessKey'' := secretAccessKey config,
                          ''sessionToken'' := sessionToken config))
      else fromNodeProviderChain w (region config))"

definition getCredentials :: "world \<Rightarrow> AWSCredentialConfig \<Rightarrow> AwsCredentialIdentity io" where
  "getCredentials w config =
     bind (detectEnvironment w) (\<lambda>env.
       tryCatch
         (if isContainer env \<and> (isECS env \<or> isEKS env \<or> hasIamRole env) then
            getProductionCredentials w config
          else if hasAwsCli env \<and> authType config = Some SSO then
            getDevelopmentSSOCredentials w config
          else getFallbackCredentials w config)
         (\<lambda>error. throw (Error (''AWS credential resolution failed: '' @ messageOf error))))"

subsection \<open>Status and profiles\<close>

text \<open>The status object; \<open>methodName\<close> is its property \<open>method\<close>.\<close>

record CredentialStatus =
  available :: bool
  methodName :: string
  identity :: "CallerIdentity option"
  error :: "string option"

definition checkCredentialStatus :: "world \<Rightarrow> AWSCredentialConfig \<Rightarrow> CredentialStatus io" where
  "checkCredentialStatus w config =
     tryCatch
       (bind (getCredentials w config) (\<lambda>credentials.
        bind (detectEnvironment w) (\<lambda>env.
        bind (getCallerIdentity w (region config) credentials) (\<lambda>ident.
        return \<lparr>available = True,
                methodName = (if isECS env then ''ECS Task Role''
                          else if isEKS env then ''EKS Service Account''
                          else if hasIamRole env then ''EC2 Instance Profile''
                          else if authType config = Some SSO then ''AWS SSO''
                          else if truthy (accessKeyId config) then ''Static Credentials''
                          else ''Default Credential Chain''),
                identity = Some \<lparr>Account = Account ident, Arn = Arn ident,
                                  UserId = UserId ident\<rparr>,
                error = None\<rparr>))))
       (\<lambda>e. return \<lparr>available = False, methodName = ''none'', identity = None,
                      error = Some (messageOf e)\<rparr>)"

text \<open>The loop over the lines of the configuration file, in \<open>AWSCredentialService\<close>.\<close>

fun profilesOfLines :: "string list \<Rightarrow> string list" where
  "profilesOfLines [] = []"
| "profilesOfLines (line # lines) =
     (let trimmedLine = trim line in
      if startsWith trimmedLine ''[default]'' then ''default'' # profilesOfLines lines
      else if startsWith trimmedLine ''[profile '' then
        trim (slice_9_m1 trimmedLine) # profilesOfLines lines
      else profilesOfLines lines)"

definition getAvailableProfiles :: "world \<Rightarrow> string list io" where
  "getAvailableProfiles w =
     bind (detectEnvironment w) (\<lambda>env.
       if isContainer env then return []
       else
         tryCatch
           (bind (existsSync w (awsConfigPath w)) (\<lambda>found.
              if \<not> found then return []
              else bind (readFileSync w (awsConfigPath w)) (\<lambda>configContent.
                return (profilesOfLines (split_lines configContent)))))
           (\<lambda>_. return []))"

text \<open>The same operation of \<open>AWSSSOService\<close> (awsSsoService.ts).\<close>

fun sso_profilesOfLines :: "string list \<Rightarrow> string list" where
  "sso_profilesOfLines [] = []"
| "sso_profilesOfLines (line # lines) =
     (let trimmedLine = trim line in
      if trimmedLine = ''[default]'' then ''default'' # sso_profilesOfLines lines
      else if startsWith trimmedLine ''[profile '' \<and> endsWith trimmedLine '']'' then
        slice_9_m1 trimmedLine # sso_profilesOfLines lines
      else sso_profilesOfLines lines)"

definition sso_getAvailableProfiles :: "world \<Rightarrow> string list io" where
  "sso_getAvailableProfiles w =
     tryCatch
       (bind (existsSync w (awsConfigPath w)) (\<lambda>found.
          if \<not> found then return []
          else bind (readFileSync w (awsConfigPath w)) (\<lambda>configContent.
            return (sso_profilesOfLines (split_lines configContent)))))
       (\<lambda>_. return [])"

section \<open>Parsing the provider configuration\<close>

text \<open>
  The three versions of \<open>_parseAndValidateConfig\<close> of the Bedrock provider.  Each takes the
  outcome of \<open>JSON.parse(apiKey)\<close>: \<open>None\<close> when it throws, otherwise the parsed object,
  whose properties are strings by the declared type (a JSON text that is not an object
  with string properties is not covered).  The value returned is the object literal the
  source builds.  \<open>a || b\<close> on optional strings is \<open>orElse\<close>; \<open>...(v && { k: v })\<close> sets
  the property only for a truthy value.
\<close>

definition orElse :: "string option \<Rightarrow> string option \<Rightarrow> string option" where
  "orElse a b = (if truthy a then a else b)"

definition whenTruthy :: "string option \<Rightarrow> string option" where
  "whenTruthy v = (if truthy v then v else None)"

text \<open>The version that accepts a region with or without explicit credentials.\<close>

definition parseAndValidateConfig_explicit :: "jsobject option \<Rightarrow> thrown + jsobject" where
  "parseAndValidateConfig_explicit parsed =
     (case parsed of
        None \<Rightarrow> Inl (Error (''Invalid AWS Bedrock configuration format. Please provide a valid JSON string containing region and either explicit credentials (accessKeyId, secretAccessKey) or use AWS credential chain (SSO, environment variables, etc.).''))
      | Some parsedConfig \<Rightarrow>
          (let rgn = parsedConfig ''region'';
               keyId = parsedConfig ''accessKeyId'';
               secret = parsedConfig ''secretAccessKey'';
               token = parsedConfig ''sessionToken''
           in if \<not> truthy rgn then
                Inl (Error ''Missing required AWS region. Configuration must include region.'')
              else if (truthy keyId \<or> truthy secret) \<and> (\<not> truthy keyId \<or> \<not> truthy secret) then
                Inl (Error ''When using explicit credentials, both accessKeyId and secretAccessKey are required.'')
              else
                Inr (Map.empty(''region'' := rgn,
                               ''accessKeyId'' := whenTruthy keyId,
                               ''secretAccessKey'' := whenTruthy secret,
                               ''sessionToken'' := whenTruthy token))))"

text \<open>The version with the \<open>sso\<close> and \<open>auto\<close> modes.\<close>

definition parseAndValidateConfig_sso :: "jsobject option \<Rightarrow> thrown + jsobject" where
  "parseAndValidateConfig_sso parsed =
     (case parsed of
        None \<Rightarrow> Inl (Error ''Invalid AWS Bedrock configuration format. Please provide a valid JSON string.'')
      | Some parsedConfig \<Rightarrow>
          if parsedConfig ''authType'' = Some ''sso'' \<or> parsedConfig ''authType'' = Some ''auto'' then
            (let mode = parsedConfig ''authType'';
                 rgn = parsedConfig ''region'';
                 prof = parsedConfig ''profile'';
                 startUrl = parsedConfig ''ssoStartUrl'';
                 ssoRgn = parsedConfig ''ssoRegion'';
                 accountId = parsedConfig ''ssoAccountId'';
                 roleName = parsedConfig ''ssoRoleName''
             in if \<not> truthy rgn then
                  Inl (Error ''Missing required region for AWS configuration.'')
                else if mode = Some ''sso'' \<and> \<not> truthy prof \<and> (\<not> truthy startUrl \<or> \<not> truthy ssoRgn) then
                  Inl (Error ''AWS SSO configuration must include either a profile name or SSO details (ssoStartUrl, ssoRegion).'')
                else
                  Inr (Map.empty(''authType'' := mode,
                                 ''region'' := rgn,
                                 ''profile'' := prof,
                                 ''ssoStartUrl'' := startUrl,
                                 ''ssoRegion'' := ssoRgn,
                                 ''ssoAccountId'' := accountId,
                                 ''ssoRoleName'' := roleName)))
          else
            (let rgn = parsedConfig ''region'';
                 keyId = parsedConfig ''accessKeyId'';
                 secret = parsedConfig ''secretAccessKey'';
                 token = parsedConfig ''sessionToken''
             in if \<not> truthy rgn \<or> \<not> truthy keyId \<or> \<not> truthy secret then
                  Inl (Error ''Missing required AWS credentials. Configuration must include region, accessKeyId, and secretAccessKey.'')
                else
                  Inr (Map.empty(''region'' := rgn,
                                 ''accessKeyId'' := keyId,
                                 ''secretAccessKey'' := secret,
                                 ''sessionToken'' := whenTruthy token))))"

text \<open>The version that falls back on the region variables of \<open>serverEnv\<close>.\<close>

definition parseAndValidateConfig_env :: "jsobject option \<Rightarrow> jsobject \<Rightarrow> thrown + jsobject" where
  "parseAndValidateConfig_env parsed serverEnv =
     (case parsed of
        None \<Rightarrow> Inl (Error ''Invalid AWS Bedrock configuration format. Please provide a valid JSON string containing region, accessKeyId, and secretAccessKey.'')
      | Some parsedConfig \<Rightarrow>
          (let rgn = orElse (orElse (orElse (parsedConfig ''region'')
                                       (serverEnv ''AWS_BEDROCK_REGION''))
                               (serverEnv ''AWS_REGION''))
                       (serverEnv ''AWS_DEFAULT_REGION'')
           in if \<not> truthy rgn then
                Inl (Error ''Missing AWS region. Provide it in AWS_BEDROCK_CONFIG or set AWS_BEDROCK_REGION.'')
              else
                Inr (Map.empty(''region'' := rgn,
                               ''accessKeyId'' := whenTruthy (parsedConfig ''accessKeyId''),
                               ''secretAccessKey'' := whenTruthy (parsedConfig ''secretAccessKey''),
                               ''sessionToken'' := whenTruthy (parsedConfig ''sessionToken'')))))"

section \<open>Sample worlds\<close>

text \<open>A developer machine with nothing installed: every probe is negative.\<close>

definition hostWorld :: world where
  "hostWorld =
     \<lparr>fs_existsSync = (\<lambda>h p. False),
      fs_readFileSync = (\<lambda>h p. Inl (Error ''ENOENT'')),
      process_env = (\<lambda>h n. None),
      child_exec = (\<lambda>h c. Inl (Error ''aws: not found'')),
      fetch_ok = (\<lambda>h u. Inl NonError),
      nodeProviderChain = (\<lambda>h r. Inl (Error ''Could not load credentials from any providers'')),
      iniProvider = (\<lambda>h p r. Inl (Error ''Profile not found'')),
      ssoProvider = (\<lambda>h u sr a rn r. Inl (Error ''SSO session expired'')),
      sts_send = (\<lambda>h r c. Inl (Error ''InvalidClientTokenId'')),
      awsConfigPath = ''/home/dev/.aws/config''\<rparr>"

text \<open>
  A task on the container platform: the marker file and the task metadata variable are
  there, the provider chain hands out the task role, and STS accepts it.
\<close>

definition roleCredentials :: AwsCredentialIdentity where
  "roleCredentials =
     [''accessKeyId'' \<mapsto> ''ASIAROLE'', ''secretAccessKey'' \<mapsto> ''rolesecret'',
      ''sessionToken'' \<mapsto> ''roletoken'']"

definition ecsWorld :: world where
  "ecsWorld =
     hostWorld
       \<lparr>fs_existsSync := (\<lambda>h p. p = ''/.dockerenv''),
        process_env := (\<lambda>h n. if n = ''ECS_CONTAINER_METADATA_URI_V4''
                                then Some ''http://169.254.170.2/v4/task'' else None),
        nodeProviderChain := (\<lambda>h r. Inr roleCredentials),
        sts_send := (\<lambda>h r c. Inr \<lparr>Account = Some ''123456789012'',
                                     Arn = Some ''arn:aws:sts::123456789012:assumed-role/task'',
                                     UserId = Some ''AROATASK''\<rparr>)\<rparr>"

text \<open>The same task when STS rejects the role's credentials.\<close>

definition ecsWorldRejected :: world where
  "ecsWorldRejected = ecsWorld\<lparr>sts_send := (\<lambda>h r c. Inl (Error ''ExpiredToken''))\<rparr>"

text \<open>A fresh service instance, before any request.\<close>

definition freshState :: state where
  "freshState = \<lparr>environmentInfo = None, trace = []\<rparr>"

text \<open>What the probes find in \<open>ecsWorld\<close>, and the probes a first detection runs there.\<close>

definition ecsEnvironment :: EnvironmentInfo where
  "ecsEnvironment =
     \<lparr>isContainer = True, isECS = True, isEKS = False, hasAwsCli = False, hasIamRole = False\<rparr>"

definition ecsProbes :: "request list" where
  "ecsProbes =
     [ExistsSync ''/.dockerenv'', GetEnv ''AWS_EXECUTION_ENV'',
      GetEnv ''ECS_CONTAINER_METADATA_URI'', GetEnv ''ECS_CONTAINER_METADATA_URI_V4'',
      ExistsSync ''/var/run/secrets/kubernetes.io/serviceaccount/token'',
      Exec ''aws --version'',
      Fetch ''http://169.254.169.254/latest/meta-data/iam/security-credentials/'']"

definition hostEnvironment :: EnvironmentInfo where
  "hostEnvironment =
     \<lparr>isContainer = False, isECS = False, isEKS = False, hasAwsCli = False, hasIamRole = False\<rparr>"

definition hostProbes :: "request list" where
  "hostProbes =
     [ExistsSync ''/.dockerenv'', ExistsSync ''/proc/1/cgroup'', GetEnv ''AWS_EXECUTION_ENV'',
      GetEnv ''ECS_CONTAINER_METADATA_URI'', GetEnv ''ECS_CONTAINER_METADATA_URI_V4'',
      ExistsSync ''/var/run/secrets/kubernetes.io/serviceaccount/token'',
      Exec ''aws --version'',
      Fetch ''http://169.254.169.254/latest/meta-data/iam/security-credentials/'']"

text \<open>
  Sample configurations: the legacy static shape of the scenario, the same with
  \<open>authType\<close> spelled out, and a profile-based SSO configuration for the same region.
\<close>

definition scenarioConfig :: AWSCredentialConfig where
  "scenarioConfig =
     \<lparr>authType = None, region = ''us-east-1'', profile = None, ssoStartUrl = None,
      ssoRegion = None, ssoAccountId = None, ssoRoleName = None,
      accessKeyId = Some ''AKIA1'', secretAccessKey = Some ''s1'', sessionToken = None,
      roleArn = None, externalId = None\<rparr>"

definition staticConfig :: AWSCredentialConfig where
  "staticConfig = scenarioConfig\<lparr>authType := Some Static\<rparr>"

definition ssoProfileConfig :: AWSCredentialConfig where
  "ssoProfileConfig =
     \<lparr>authType = Some SSO, region = ''us-east-1'', profile = Some ''dev'',
      ssoStartUrl = Some ''https://example.awsapps.com/start'', ssoRegion = Some ''eu-west-1'',
      ssoAccountId = Some ''123456789012'', ssoRoleName = Some ''Developer'',
      accessKeyId = None, secretAccessKey = None, sessionToken = Some ''stale'',
      roleArn = None, externalId = None\<rparr>"

text \<open>The state a first detection leaves in \<open>ecsWorld\<close>, and the requests of the platform-role strategy.\<close>

definition ecsDetected :: state where
  "ecsDetected = \<lparr>environmentInfo = Some ecsEnvironment, trace = ecsProbes\<rparr>"

definition roleRequests :: "request list" where
  "roleRequests =
     [FromNodeProviderChain ''us-east-1'', GetCallerIdentity ''us-east-1'' roleCredentials]"

text \<open>The state a first detection leaves in \<open>hostWorld\<close>.\<close>

definition hostDetected :: state where
  "hostDetected = \<lparr>environmentInfo = Some hostEnvironment, trace = hostProbes\<rparr>"

text \<open>The region the server environment supplies: the first truthy of the three variables.\<close>

definition environmentRegion :: "jsobject \<Rightarrow> string option" where
  "environmentRegion serverEnv =
     orElse (orElse (serverEnv ''AWS_BEDROCK_REGION'') (serverEnv ''AWS_REGION''))
       (serverEnv ''AWS_DEFAULT_REGION'')"

text \<open>
  A configuration file whose second section header lacks its closing bracket, and the
  developer machine that holds it.
\<close>

definition brokenConfigFile :: string where
  "brokenConfigFile =
     ''[default]'' @ [CHR 0x0A] @ ''region = us-east-1'' @ [CHR 0x0A] @
     ''[profile dev'' @ [CHR 0x0A] @ ''region = eu-west-1'' @ [CHR 0x0A] @
     ''[profile prod]'' @ [CHR 0x0A]"

definition devWorld :: world where
  "devWorld =
     hostWorld
       \<lparr>fs_existsSync := (\<lambda>h p. p = ''/home/dev/.aws/config''),
        fs_readFileSync := (\<lambda>h p. if p = ''/home/dev/.aws/config'' then Inr brokenConfigFile
                                    else Inl (Error ''ENOENT''))\<rparr>"

text \<open>A developer machine with the CLI installed, and an SSO configuration with nothing but a region.\<close>

definition cliWorld :: world where
  "cliWorld = hostWorld\<lparr>child_exec := (\<lambda>h c. Inr ''aws-cli/2.15.0'')\<rparr>"

definition cliEnvironment :: EnvironmentInfo where
  "cliEnvironment = hostEnvironment\<lparr>hasAwsCli := True\<rparr>"

definition cliDetected :: state where
  "cliDetected = \<lparr>environmentInfo = Some cliEnvironment, trace = hostProbes\<rparr>"

definition ssoBareConfig :: AWSCredentialConfig where
  "ssoBareConfig =
     \<lparr>authType = Some SSO, region = ''us-west-2'', profile = None, ssoStartUrl = None,
      ssoRegion = None, ssoAccountId = None, ssoRoleName = None,
      accessKeyId = None, secretAccessKey = None, sessionToken = None,
      roleArn = None, externalId = None\<rparr>"

section \<open>Environment detection is computed once\<close>

lemmas io_defs = return_def throw_def bind_def tryCatch_def perform_def

lemmas probe_defs = isRunningInContainer_def isRunningInECS_def isRunningInEKS_def
  isAwsCliAvailable_def hasIamRoleAttached_def existsSync_def readFileSync_def getenv_def
  execAsync_def fetch_def setEnvironmentInfo_def Let_def

text \<open>No probe throws, and no probe touches the cached field.\<close>

lemma isRunningInContainer_total:
  "\<exists>b s'. isRunningInContainer w s = (Inr b, s') \<and> environmentInfo s' = environmentInfo s"
  by (auto simp: isRunningInContainer_def existsSync_def readFileSync_def io_defs
      split: sum.splits prod.splits)

lemma isRunningInECS_total:
  "\<exists>b s'. isRunningInECS w s = (Inr b, s') \<and> environmentInfo s' = environmentInfo s"
  by (auto simp: isRunningInECS_def getenv_def io_defs split: sum.splits prod.splits)

lemma isRunningInEKS_total:
  "\<exists>b s'. isRunningInEKS w s = (Inr b, s') \<and> environmentInfo s' = environmentInfo s"
  by (auto simp: isRunningInEKS_def existsSync_def getenv_def io_defs
      split: sum.splits prod.splits)

lemma isAwsCliAvailable_total:
  "\<exists>b s'. isAwsCliAvailable w s = (Inr b, s') \<and> environmentInfo s' = environmentInfo s"
  by (auto simp: isAwsCliAvailable_def execAsync_def io_defs split: sum.splits prod.splits)

lemma hasIamRoleAttached_total:
  "\<exists>b s'. hasIamRoleAttached w s = (Inr b, s') \<and> environmentInfo s' = environmentInfo s"
  by (auto simp: hasIamRoleAttached_def fetch_def io_defs split: sum.splits prod.splits)

lemma detectEnvironment_cached:
  "environmentInfo s = Some env \<Longrightarrow> detectEnvironment w s = (Inr env, s)"
  by (simp add: detectEnvironment_def return_def)

lemma detectEnvironment_fresh:
  assumes "environmentInfo s = None"
  shows "\<exists>env s'. detectEnvironment w s = (Inr env, s') \<and> environmentInfo s' = Some env"
proof -
  obtain c s1 where 1: "isRunningInContainer w s = (Inr c, s1)"
    using isRunningInContainer_total by blast
  obtain e s2 where 2: "isRunningInECS w s1 = (Inr e, s2)"
    using isRunningInECS_total by blast
  obtain k s3 where 3: "isRunningInEKS w s2 = (Inr k, s3)"
    using isRunningInEKS_total by blast
  obtain a s4 where 4: "isAwsCliAvailable w s3 = (Inr a, s4)"
    using isAwsCliAvailable_total by blast
  obtain i s5 where 5: "hasIamRoleAttached w s4 = (Inr i, s5)"
    using hasIamRoleAttached_total by blast
  show ?thesis
    using assms 1 2 3 4 5
    by (simp add: detectEnvironment_def bind_def return_def setEnvironmentInfo_def Let_def)
qed

lemma detectEnvironment_total:
  "\<exists>env s'. detectEnvironment w s = (Inr env, s') \<and> environmentInfo s' = Some env"
proof (cases "environmentInfo s")
  case None
  then show ?thesis by (rule detectEnvironment_fresh)
next
  case (Some env)
  then show ?thesis by (simp add: detectEnvironment_cached)
qed

lemma detectEnvironment_ecsWorld:
  "detectEnvironment ecsWorld freshState =
     (Inr ecsEnvironment, \<lparr>environmentInfo = Some ecsEnvironment, trace = ecsProbes\<rparr>)"
  by (simp add: detectEnvironment_def probe_defs io_defs ecsWorld_def hostWorld_def
      freshState_def ecsEnvironment_def ecsProbes_def startsWith_def)

lemma detectEnvironment_hostWorld:
  "detectEnvironment hostWorld freshState =
     (Inr hostEnvironment, \<lparr>environmentInfo = Some hostEnvironment, trace = hostProbes\<rparr>)"
  by (simp add: detectEnvironment_def probe_defs io_defs hostWorld_def freshState_def
      hostEnvironment_def hostProbes_def)

text \<open>
  Claim C8.  Of two consecutive calls of \<open>detectEnvironment\<close> on the same service instance,
  the first returns an \<open>EnvironmentInfo\<close> (it never throws) and the second returns exactly
  that value, whatever the probes would answer by then (the second call runs in any world
  \<open>w2\<close>); the second call leaves the state as it found it, so it issues no request at all:
  no file, environment-variable, subprocess or metadata probe is run again.
\<close>

theorem detectEnvironment_idempotent:
  assumes "detectEnvironment w1 s = (r1, s1)"
    and "detectEnvironment w2 s1 = (r2, s2)"
  shows "(\<exists>env. r1 = Inr env) \<and> r2 = r1 \<and> s2 = s1 \<and> trace s2 = trace s1"
proof -
  obtain env s' where d: "detectEnvironment w1 s = (Inr env, s')" "environmentInfo s' = Some env"
    using detectEnvironment_total by blast
  with assms(1) have r1: "r1 = Inr env" and s1: "environmentInfo s1 = Some env"
    by simp_all
  from s1 have "detectEnvironment w2 s1 = (Inr env, s1)"
    by (rule detectEnvironment_cached)
  with assms(2) r1 show ?thesis by auto
qed

text \<open>
  The first call runs in the container world, the second in a world where every probe
  would be negative: the second call still answers with the container environment.
\<close>

theorem detectEnvironment_idempotent_witness:
  "detectEnvironment ecsWorld freshState =
     (Inr ecsEnvironment, \<lparr>environmentInfo = Some ecsEnvironment, trace = ecsProbes\<rparr>)
   \<and> detectEnvironment hostWorld \<lparr>environmentInfo = Some ecsEnvironment, trace = ecsProbes\<rparr> =
     (Inr ecsEnvironment, \<lparr>environmentInfo = Some ecsEnvironment, trace = ecsProbes\<rparr>)
   \<and> fst (detectEnvironment hostWorld freshState) = Inr hostEnvironment"
proof -
  let ?s1 = "\<lparr>environmentInfo = Some ecsEnvironment, trace = ecsProbes\<rparr>"
  obtain r2 s2 where second: "detectEnvironment hostWorld ?s1 = (r2, s2)"
    by (cases "detectEnvironment hostWorld ?s1")
  from detectEnvironment_idempotent [OF detectEnvironment_ecsWorld second]
  have "r2 = Inr ecsEnvironment" and "s2 = ?s1" by simp_all
  with second show ?thesis
    by (simp add: detectEnvironment_ecsWorld detectEnvironment_hostWorld)
qed

section \<open>Strategy selection\<close>

lemma getProductionCredentials_unfold:
  "getProductionCredentials w config s =
     (case nodeProviderChain w (trace s) (region config) of
        Inl e \<Rightarrow> (Inl e, s\<lparr>trace := trace s @ [FromNodeProviderChain (region config)]\<rparr>)
      | Inr c \<Rightarrow>
          (case sts_send w (trace s @ [FromNodeProviderChain (region config)]) (region config) c of
             Inl e \<Rightarrow>
               (Inl (Error (''Credential validation failed: '' @ messageOf e)),
                s\<lparr>trace := trace s @ [FromNodeProviderChain (region config),
                                         GetCallerIdentity (region config) c]\<rparr>)
           | Inr _ \<Rightarrow>
               (Inr c,
                s\<lparr>trace := trace s @ [FromNodeProviderChain (region config),
                                         GetCallerIdentity (region config) c]\<rparr>)))"
  by (simp add: getProductionCredentials_def validateCredentials_def fromNodeProviderChain_def
      getCallerIdentity_def io_defs split: sum.splits)

lemma getCredentials_after_detection:
  assumes "detectEnvironment w s = (Inr env, s1)"
  shows "getCredentials w config s =
     tryCatch
       (if isContainer env \<and> (isECS env \<or> isEKS env \<or> hasIamRole env) then
          getProductionCredentials w config
        else if hasAwsCli env \<and> authType config = Some SSO then
          getDevelopmentSSOCredentials w config
        else getFallbackCredentials w config)
       (\<lambda>error. throw (Error (''AWS credential resolution failed: '' @ messageOf error))) s1"
  using assms by (simp add: getCredentials_def bind_def)

lemma getCredentials_platform_role:
  assumes "detectEnvironment w s = (Inr env, s1)"
    and "isContainer env" and "isECS env \<or> isEKS env \<or> hasIamRole env"
  shows "getCredentials w config s =
     (case nodeProviderChain w (trace s1) (region config) of
        Inl e \<Rightarrow>
          (Inl (Error (''AWS credential resolution failed: '' @ messageOf e)),
           s1\<lparr>trace := trace s1 @ [FromNodeProviderChain (region config)]\<rparr>)
      | Inr c \<Rightarrow>
          (case sts_send w (trace s1 @ [FromNodeProviderChain (region config)]) (region config) c of
             Inl e \<Rightarrow>
               (Inl (Error (''AWS credential resolution failed: '' @
                            ''Credential validation failed: '' @ messageOf e)),
                s1\<lparr>trace := trace s1 @ [FromNodeProviderChain (region config),
                                           GetCallerIdentity (region config) c]\<rparr>)
           | Inr _ \<Rightarrow>
               (Inr c,
                s1\<lparr>trace := trace s1 @ [FromNodeProviderChain (region config),
                                           GetCallerIdentity (region config) c]\<rparr>)))"
  using assms(2,3)
  by (simp add: getCredentials_after_detection [OF assms(1)] getProductionCredentials_unfold
      tryCatch_def throw_def split: sum.splits)

text \<open>The strategies leave the cached environment alone, so it is still set afterwards.\<close>

lemma strategies_keep_environmentInfo:
  "environmentInfo (snd (getProductionCredentials w config s)) = environmentInfo s"
  "environmentInfo (snd (getDevelopmentSSOCredentials w config s)) = environmentInfo s"
  "environmentInfo (snd (getFallbackCredentials w config s)) = environmentInfo s"
  by (simp_all add: getProductionCredentials_unfold getDevelopmentSSOCredentials_def
      getFallbackCredentials_def fromIni_def fromSSO_def fromNodeProviderChain_def io_defs
      split: sum.splits)

lemma tryCatch_throw_keeps:
  "environmentInfo (snd (tryCatch m (\<lambda>e. throw (f e)) s)) = environmentInfo (snd (m s))"
  by (simp add: tryCatch_def throw_def split: prod.splits sum.splits)

lemma getCredentials_keeps_environmentInfo:
  assumes "getCredentials w config s = (r, s2)"
  shows "\<exists>env. environmentInfo s2 = Some env"
proof -
  obtain env s1 where d: "detectEnvironment w s = (Inr env, s1)" "environmentInfo s1 = Some env"
    using detectEnvironment_total by blast
  have "environmentInfo (snd (getCredentials w config s)) = environmentInfo s1"
    unfolding getCredentials_after_detection [OF d(1)] tryCatch_throw_keeps
    by (simp add: strategies_keep_environmentInfo)
  with assms d show ?thesis by simp
qed

text \<open>The sample worlds, evaluated.\<close>

lemma detectEnvironment_ecsWorld':
  "detectEnvironment ecsWorld freshState = (Inr ecsEnvironment, ecsDetected)"
  by (simp add: detectEnvironment_ecsWorld ecsDetected_def)

lemma detectEnvironment_ecsWorldRejected:
  "detectEnvironment ecsWorldRejected freshState = (Inr ecsEnvironment, ecsDetected)"
  by (simp add: detectEnvironment_def probe_defs io_defs ecsWorldRejected_def ecsWorld_def
      hostWorld_def freshState_def ecsEnvironment_def ecsProbes_def ecsDetected_def
      startsWith_def)

lemma ecsEnvironment_flags:
  "isContainer ecsEnvironment" "isECS ecsEnvironment \<or> isEKS ecsEnvironment \<or> hasIamRole ecsEnvironment"
  by (simp_all add: ecsEnvironment_def)

lemma getCredentials_ecsWorld:
  "getCredentials ecsWorld staticConfig freshState =
     (Inr roleCredentials, ecsDetected\<lparr>trace := ecsProbes @ roleRequests\<rparr>)"
  by (subst getCredentials_platform_role [OF detectEnvironment_ecsWorld' ecsEnvironment_flags])
    (simp add: ecsWorld_def hostWorld_def staticConfig_def scenarioConfig_def ecsDetected_def
      roleRequests_def)

lemma getCredentials_ecsWorldRejected:
  "getCredentials ecsWorldRejected staticConfig freshState =
     (Inl (Error ''AWS credential resolution failed: Credential validation failed: ExpiredToken''),
      ecsDetected\<lparr>trace := ecsProbes @ roleRequests\<rparr>)"
  by (subst getCredentials_platform_role
        [OF detectEnvironment_ecsWorldRejected ecsEnvironment_flags])
    (simp add: ecsWorldRejected_def ecsWorld_def hostWorld_def staticConfig_def
      scenarioConfig_def ecsDetected_def roleRequests_def)

text \<open>
  Claim C1.  Whenever the probed environment is a container with an orchestrator-A,
  orchestrator-B or attached-role signal, \<open>getCredentials\<close> runs the platform-role strategy
  and nothing else, for every configuration: its first request after detection is the
  provider-chain request for the configured region, and any credential it returns is the
  one the provider chain handed out.  The static keys of the configuration play no part,
  even with \<open>authType = static\<close> and both keys present.
\<close>

theorem getCredentials_platform_role_first:
  assumes "detectEnvironment w s = (Inr env, s1)"
    and "isContainer env" and "isECS env \<or> isEKS env \<or> hasIamRole env"
  shows "getCredentials w config s =
           tryCatch (getProductionCredentials w config)
             (\<lambda>error. throw (Error (''AWS credential resolution failed: '' @ messageOf error))) s1
         \<and> (\<exists>rest. trace (snd (getCredentials w config s)) =
                     trace s1 @ FromNodeProviderChain (region config) # rest)
         \<and> (\<forall>c s2. getCredentials w config s = (Inr c, s2) \<longrightarrow>
                     nodeProviderChain w (trace s1) (region config) = Inr c)"
proof (intro conjI)
  show "getCredentials w config s =
           tryCatch (getProductionCredentials w config)
             (\<lambda>error. throw (Error (''AWS credential resolution failed: '' @ messageOf error))) s1"
    using assms(2,3) by (simp add: getCredentials_after_detection [OF assms(1)])
  show "\<exists>rest. trace (snd (getCredentials w config s)) =
                     trace s1 @ FromNodeProviderChain (region config) # rest"
    by (simp add: getCredentials_platform_role [OF assms] split: sum.splits)
  show "\<forall>c s2. getCredentials w config s = (Inr c, s2) \<longrightarrow>
                     nodeProviderChain w (trace s1) (region config) = Inr c"
    by (simp add: getCredentials_platform_role [OF assms] split: sum.splits)
qed

text \<open>
  In the container world, the configuration with \<open>authType = static\<close> and both keys gets
  the task role's credentials, not its own keys.
\<close>

theorem getCredentials_platform_role_first_witness:
  "detectEnvironment ecsWorld freshState = (Inr ecsEnvironment, ecsDetected)
   \<and> isContainer ecsEnvironment \<and> isECS ecsEnvironment
   \<and> authType staticConfig = Some Static
   \<and> accessKeyId staticConfig = Some ''AKIA1'' \<and> secretAccessKey staticConfig = Some ''s1''
   \<and> getCredentials ecsWorld staticConfig freshState =
       tryCatch (getProductionCredentials ecsWorld staticConfig)
         (\<lambda>error. throw (Error (''AWS credential resolution failed: '' @ messageOf error)))
         ecsDetected
   \<and> getCredentials ecsWorld staticConfig freshState =
       (Inr roleCredentials, ecsDetected\<lparr>trace := ecsProbes @ roleRequests\<rparr>)
   \<and> nodeProviderChain ecsWorld (trace ecsDetected) (region staticConfig) = Inr roleCredentials
   \<and> roleCredentials ''accessKeyId'' = Some ''ASIAROLE''"
proof -
  note first = getCredentials_platform_role_first
    [OF detectEnvironment_ecsWorld' ecsEnvironment_flags, of staticConfig]
  from first have selected: "getCredentials ecsWorld staticConfig freshState =
       tryCatch (getProductionCredentials ecsWorld staticConfig)
         (\<lambda>error. throw (Error (''AWS credential resolution failed: '' @ messageOf error)))
         ecsDetected"
    by blast
  from first
  have chain: "nodeProviderChain ecsWorld (trace ecsDetected) (region staticConfig)
       = Inr roleCredentials"
    by (simp add: getCredentials_ecsWorld)
  have flags: "isContainer ecsEnvironment \<and> isECS ecsEnvironment"
    by (simp add: ecsEnvironment_def)
  have config: "authType staticConfig = Some Static
     \<and> accessKeyId staticConfig = Some ''AKIA1'' \<and> secretAccessKey staticConfig = Some ''s1''"
    by (simp add: staticConfig_def scenarioConfig_def)
  have role: "roleCredentials ''accessKeyId'' = Some ''ASIAROLE''"
    by (simp add: roleCredentials_def)
  from selected chain flags config role detectEnvironment_ecsWorld' getCredentials_ecsWorld
  show ?thesis by blast
qed

text \<open>
  Claim C2.  In a call of \<open>getCredentials\<close> that entered the platform-role strategy: if the
  provider chain yields a credential and the identity check on it fails, the strategy
  throws the validation failure (\<open>Credential validation failed: ...\<close>), which
  \<open>getCredentials\<close> rethrows under its own prefix, and no request other than the
  provider-chain request and the identity check is issued.  Any credential such a call
  returns is the one the provider chain handed out, after exactly those two requests;
  the local-SSO and fallback strategies are never run.
\<close>

theorem getCredentials_validation_failure_aborts:
  assumes "detectEnvironment w s = (Inr env, s1)"
    and "isContainer env" and "isECS env \<or> isEKS env \<or> hasIamRole env"
  shows "(\<forall>c e. nodeProviderChain w (trace s1) (region config) = Inr c \<and>
            sts_send w (trace s1 @ [FromNodeProviderChain (region config)]) (region config) c = Inl e
            \<longrightarrow>
            fst (getProductionCredentials w config s1) =
              Inl (Error (''Credential validation failed: '' @ messageOf e)) \<and>
            getCredentials w config s =
              (Inl (Error (''AWS credential resolution failed: Credential validation failed: ''
                           @ messageOf e)),
               s1\<lparr>trace := trace s1 @ [FromNodeProviderChain (region config),
                                          GetCallerIdentity (region config) c]\<rparr>))
         \<and> (\<forall>c s2. getCredentials w config s = (Inr c, s2) \<longrightarrow>
               nodeProviderChain w (trace s1) (region config) = Inr c \<and>
               trace s2 = trace s1 @ [FromNodeProviderChain (region config),
                                      GetCallerIdentity (region config) c])"
  by (simp add: getCredentials_platform_role [OF assms] getProductionCredentials_unfold
      split: sum.splits)

text \<open>
  The container world where STS rejects the role: resolution fails although the
  configuration carries usable static keys.  Where STS accepts it, the role is returned.
\<close>

theorem getCredentials_validation_failure_aborts_witness:
  "detectEnvironment ecsWorldRejected freshState = (Inr ecsEnvironment, ecsDetected)
   \<and> isContainer ecsEnvironment \<and> isECS ecsEnvironment
   \<and> nodeProviderChain ecsWorldRejected (trace ecsDetected) (region staticConfig)
       = Inr roleCredentials
   \<and> sts_send ecsWorldRejected (trace ecsDetected @ [FromNodeProviderChain (region staticConfig)])
        (region staticConfig) roleCredentials = Inl (Error ''ExpiredToken'')
   \<and> fst (getProductionCredentials ecsWorldRejected staticConfig ecsDetected) =
       Inl (Error ''Credential validation failed: ExpiredToken'')
   \<and> getCredentials ecsWorldRejected staticConfig freshState =
       (Inl (Error ''AWS credential resolution failed: Credential validation failed: ExpiredToken''),
        ecsDetected\<lparr>trace := ecsProbes @ roleRequests\<rparr>)
   \<and> getCredentials ecsWorld staticConfig freshState =
       (Inr roleCredentials, ecsDetected\<lparr>trace := ecsProbes @ roleRequests\<rparr>)
   \<and> nodeProviderChain ecsWorld (trace ecsDetected) (region staticConfig) = Inr roleCredentials"
proof -
  have chain: "nodeProviderChain ecsWorldRejected (trace ecsDetected) (region staticConfig)
       = Inr roleCredentials"
    by (simp add: ecsWorldRejected_def ecsWorld_def hostWorld_def)
  have sts: "sts_send ecsWorldRejected
        (trace ecsDetected @ [FromNodeProviderChain (region staticConfig)])
        (region staticConfig) roleCredentials = Inl (Error ''ExpiredToken'')"
    by (simp add: ecsWorldRejected_def)
  from getCredentials_validation_failure_aborts
    [OF detectEnvironment_ecsWorldRejected ecsEnvironment_flags, of staticConfig] chain sts
  have "fst (getProductionCredentials ecsWorldRejected staticConfig ecsDetected) =
       Inl (Error (''Credential validation failed: '' @ messageOf (Error ''ExpiredToken'')))"
    by blast
  moreover from getCredentials_validation_failure_aborts
    [OF detectEnvironment_ecsWorld' ecsEnvironment_flags, of staticConfig]
  have "nodeProviderChain ecsWorld (trace ecsDetected) (region staticConfig) = Inr roleCredentials"
    by (simp add: getCredentials_ecsWorld)
  moreover have "isContainer ecsEnvironment \<and> isECS ecsEnvironment"
    by (simp add: ecsEnvironment_def)
  ultimately show ?thesis
    using chain sts detectEnvironment_ecsWorldRejected getCredentials_ecsWorldRejected
      getCredentials_ecsWorld
    by simp
qed

text \<open>
  Claim C10.  The platform-role strategy reads the configuration through its region
  only: two configurations with the same region give the same outcome and leave the same
  state, request trace included, so the same provider-chain request is issued and the same
  validation follows; the trace grows by the provider-chain request for that region first.
\<close>

theorem getProductionCredentials_region_only:
  assumes "region c1 = region c2"
  shows "getProductionCredentials w c1 s = getProductionCredentials w c2 s
         \<and> (\<exists>rest. trace (snd (getProductionCredentials w c1 s)) =
                     trace s @ FromNodeProviderChain (region c2) # rest)"
  using assms by (simp add: getProductionCredentials_unfold split: sum.splits)

theorem getProductionCredentials_region_only_witness:
  "region staticConfig = region ssoProfileConfig
   \<and> accessKeyId staticConfig \<noteq> accessKeyId ssoProfileConfig
   \<and> profile staticConfig \<noteq> profile ssoProfileConfig
   \<and> getProductionCredentials ecsWorld staticConfig ecsDetected =
       getProductionCredentials ecsWorld ssoProfileConfig ecsDetected
   \<and> getProductionCredentials ecsWorld ssoProfileConfig ecsDetected =
       (Inr roleCredentials, ecsDetected\<lparr>trace := ecsProbes @ roleRequests\<rparr>)"
proof -
  have r: "region staticConfig = region ssoProfileConfig"
    by (simp add: staticConfig_def scenarioConfig_def ssoProfileConfig_def)
  from getProductionCredentials_region_only [OF r, of ecsWorld ecsDetected]
  have "getProductionCredentials ecsWorld staticConfig ecsDetected =
       getProductionCredentials ecsWorld ssoProfileConfig ecsDetected"
    by blast
  moreover have "getProductionCredentials ecsWorld ssoProfileConfig ecsDetected =
       (Inr roleCredentials, ecsDetected\<lparr>trace := ecsProbes @ roleRequests\<rparr>)"
    by (simp add: getProductionCredentials_unfold ecsWorld_def hostWorld_def
        ssoProfileConfig_def ecsDetected_def roleRequests_def)
  moreover have "accessKeyId staticConfig \<noteq> accessKeyId ssoProfileConfig
     \<and> profile staticConfig \<noteq> profile ssoProfileConfig"
    by (simp add: staticConfig_def scenarioConfig_def ssoProfileConfig_def)
  ultimately show ?thesis using r by blast
qed

lemma getCredentials_fallback_static:
  assumes "detectEnvironment w s = (Inr env, s1)"
    and "\<not> isContainer env"
    and "authType config \<noteq> Some SSO"
    and "truthy (accessKeyId config)" and "truthy (secretAccessKey config)"
  shows "getCredentials w config s =
     (Inr (Map.empty(''accessKeyId'' := accessKeyId config,
                     ''secretAccessKey'' := secretAccessKey config,
                     ''sessionToken'' := sessionToken config)), s1)"
  using assms(2-)
  by (simp add: getCredentials_after_detection [OF assms(1)] getFallbackCredentials_def io_defs)

lemma detectEnvironment_hostWorld':
  "detectEnvironment hostWorld freshState = (Inr hostEnvironment, hostDetected)"
  by (simp add: detectEnvironment_hostWorld hostDetected_def)

lemma getCredentials_hostWorld:
  "getCredentials hostWorld scenarioConfig freshState =
     (Inr [''accessKeyId'' \<mapsto> ''AKIA1'', ''secretAccessKey'' \<mapsto> ''s1''], hostDetected)"
  by (subst getCredentials_fallback_static [OF detectEnvironment_hostWorld'])
    (simp_all add: hostEnvironment_def scenarioConfig_def)

section \<open>Status reporting\<close>

lemma tryCatch_return_total:
  "\<exists>x s2. tryCatch m (\<lambda>e. return (h e)) s = (Inr x, s2)"
  by (cases "m s") (auto simp: tryCatch_def return_def split: sum.splits)

lemma checkCredentialStatus_on_failure:
  assumes "getCredentials w config s = (Inl e, s1)"
  shows "checkCredentialStatus w config s =
     (Inr \<lparr>available = False, methodName = ''none'', identity = None,
            error = Some (messageOf e)\<rparr>, s1)"
  using assms by (simp add: checkCredentialStatus_def io_defs)

lemma checkCredentialStatus_on_rejection:
  assumes "getCredentials w config s = (Inr c, s1)"
    and "sts_send w (trace s1) (region config) c = Inl e"
  shows "checkCredentialStatus w config s =
     (Inr \<lparr>available = False, methodName = ''none'', identity = None,
            error = Some (messageOf e)\<rparr>,
      s1\<lparr>trace := trace s1 @ [GetCallerIdentity (region config) c]\<rparr>)"
proof -
  obtain env where env: "environmentInfo s1 = Some env"
    using getCredentials_keeps_environmentInfo [OF assms(1)] by blast
  then have d: "detectEnvironment w s1 = (Inr env, s1)"
    by (rule detectEnvironment_cached)
  show ?thesis
    using assms d
    by (simp add: checkCredentialStatus_def getCallerIdentity_def io_defs)
qed

text \<open>
  Claim C3.  \<open>checkCredentialStatus\<close> never throws: for every world, configuration and
  state it returns a status.  When credential resolution throws, the status has
  \<open>available = false\<close> and carries the message of what was thrown in \<open>error\<close>; the same
  when resolution succeeds and the identity check throws.
\<close>

theorem checkCredentialStatus_never_throws:
  "(\<exists>status s2. checkCredentialStatus w config s = (Inr status, s2))
   \<and> (\<forall>e s1. getCredentials w config s = (Inl e, s1) \<longrightarrow>
         checkCredentialStatus w config s =
           (Inr \<lparr>available = False, methodName = ''none'', identity = None,
                  error = Some (messageOf e)\<rparr>, s1))
   \<and> (\<forall>c s1 e. getCredentials w config s = (Inr c, s1) \<and>
         sts_send w (trace s1) (region config) c = Inl e \<longrightarrow>
         checkCredentialStatus w config s =
           (Inr \<lparr>available = False, methodName = ''none'', identity = None,
                  error = Some (messageOf e)\<rparr>,
            s1\<lparr>trace := trace s1 @ [GetCallerIdentity (region config) c]\<rparr>))"
proof (intro conjI allI impI)
  show "\<exists>status s2. checkCredentialStatus w config s = (Inr status, s2)"
    unfolding checkCredentialStatus_def by (rule tryCatch_return_total)
next
  fix e s1 assume "getCredentials w config s = (Inl e, s1)"
  then show "checkCredentialStatus w config s =
           (Inr \<lparr>available = False, methodName = ''none'', identity = None,
                  error = Some (messageOf e)\<rparr>, s1)"
    by (rule checkCredentialStatus_on_failure)
next
  fix c s1 e
  assume "getCredentials w config s = (Inr c, s1) \<and>
         sts_send w (trace s1) (region config) c = Inl e"
  then show "checkCredentialStatus w config s =
           (Inr \<lparr>available = False, methodName = ''none'', identity = None,
                  error = Some (messageOf e)\<rparr>,
            s1\<lparr>trace := trace s1 @ [GetCallerIdentity (region config) c]\<rparr>)"
    by (simp add: checkCredentialStatus_on_rejection)
qed

text \<open>
  A resolution failure (the rejected task role) and an identity-check failure (static keys
  on the developer machine), each reported in the status.
\<close>

theorem checkCredentialStatus_never_throws_witness:
  "getCredentials ecsWorldRejected staticConfig freshState =
     (Inl (Error ''AWS credential resolution failed: Credential validation failed: ExpiredToken''),
      ecsDetected\<lparr>trace := ecsProbes @ roleRequests\<rparr>)
   \<and> checkCredentialStatus ecsWorldRejected staticConfig freshState =
     (Inr \<lparr>available = False, methodName = ''none'', identity = None,
            error = Some ''AWS credential resolution failed: Credential validation failed: ExpiredToken''\<rparr>,
      ecsDetected\<lparr>trace := ecsProbes @ roleRequests\<rparr>)
   \<and> getCredentials hostWorld scenarioConfig freshState =
     (Inr [''accessKeyId'' \<mapsto> ''AKIA1'', ''secretAccessKey'' \<mapsto> ''s1''], hostDetected)
   \<and> sts_send hostWorld (trace hostDetected) (region scenarioConfig)
        [''accessKeyId'' \<mapsto> ''AKIA1'', ''secretAccessKey'' \<mapsto> ''s1'']
       = Inl (Error ''InvalidClientTokenId'')
   \<and> checkCredentialStatus hostWorld scenarioConfig freshState =
     (Inr \<lparr>available = False, methodName = ''none'', identity = None,
            error = Some ''InvalidClientTokenId''\<rparr>,
      hostDetected\<lparr>trace := trace hostDetected @
        [GetCallerIdentity (region scenarioConfig)
           [''accessKeyId'' \<mapsto> ''AKIA1'', ''secretAccessKey'' \<mapsto> ''s1'']]\<rparr>)"
proof -
  have sts: "sts_send hostWorld (trace hostDetected) (region scenarioConfig)
        [''accessKeyId'' \<mapsto> ''AKIA1'', ''secretAccessKey'' \<mapsto> ''s1'']
       = Inl (Error ''InvalidClientTokenId'')"
    by (simp add: hostWorld_def)
  from checkCredentialStatus_never_throws [of ecsWorldRejected staticConfig freshState]
    getCredentials_ecsWorldRejected
  have failed: "checkCredentialStatus ecsWorldRejected staticConfig freshState =
     (Inr \<lparr>available = False, methodName = ''none'', identity = None,
            error = Some ''AWS credential resolution failed: Credential validation failed: ExpiredToken''\<rparr>,
      ecsDetected\<lparr>trace := ecsProbes @ roleRequests\<rparr>)"
    by simp
  from checkCredentialStatus_never_throws [of hostWorld scenarioConfig freshState]
    getCredentials_hostWorld sts
  have rejected: "checkCredentialStatus hostWorld scenarioConfig freshState =
     (Inr \<lparr>available = False, methodName = ''none'', identity = None,
            error = Some ''InvalidClientTokenId''\<rparr>,
      hostDetected\<lparr>trace := trace hostDetected @
        [GetCallerIdentity (region scenarioConfig)
           [''accessKeyId'' \<mapsto> ''AKIA1'', ''secretAccessKey'' \<mapsto> ''s1'']]\<rparr>)"
    by simp
  from failed rejected sts getCredentials_ecsWorldRejected getCredentials_hostWorld
  show ?thesis by blast
qed

section \<open>The static-credential scenario\<close>

text \<open>
  Claim C4, as amended.  Outside a container, resolving the configuration
  \<open>{region: us-east-1, accessKeyId: AKIA1, secretAccessKey: s1}\<close> takes the fallback
  strategy, issues no request, and returns the object with \<open>accessKeyId = AKIA1\<close> and
  \<open>secretAccessKey = s1\<close> (\<open>sessionToken\<close> undefined).  The returned object has no
  \<open>region\<close> property.
\<close>

theorem getCredentials_scenario_fallback:
  assumes "detectEnvironment w s = (Inr env, s1)" and "\<not> isContainer env"
  shows "getCredentials w scenarioConfig s =
           (Inr [''accessKeyId'' \<mapsto> ''AKIA1'', ''secretAccessKey'' \<mapsto> ''s1''], s1)
         \<and> (\<forall>c s2. getCredentials w scenarioConfig s = (Inr c, s2) \<longrightarrow>
               c ''accessKeyId'' = Some ''AKIA1'' \<and> c ''secretAccessKey'' = Some ''s1'' \<and>
               c ''sessionToken'' = None \<and> c ''region'' = None \<and> trace s2 = trace s1)"
  using assms(2)
  by (subst (1 2) getCredentials_fallback_static [OF assms(1)])
    (auto simp: scenarioConfig_def)

theorem getCredentials_scenario_fallback_witness:
  "detectEnvironment hostWorld freshState = (Inr hostEnvironment, hostDetected)
   \<and> \<not> isContainer hostEnvironment
   \<and> getCredentials hostWorld scenarioConfig freshState =
       (Inr [''accessKeyId'' \<mapsto> ''AKIA1'', ''secretAccessKey'' \<mapsto> ''s1''], hostDetected)
   \<and> [''accessKeyId'' \<mapsto> ''AKIA1'', ''secretAccessKey'' \<mapsto> ''s1''] ''region'' = None
   \<and> trace hostDetected = hostProbes"
proof -
  have host: "\<not> isContainer hostEnvironment"
    by (simp add: hostEnvironment_def)
  note scenario = getCredentials_scenario_fallback [OF detectEnvironment_hostWorld' host]
  from scenario have returned: "getCredentials hostWorld scenarioConfig freshState =
       (Inr [''accessKeyId'' \<mapsto> ''AKIA1'', ''secretAccessKey'' \<mapsto> ''s1''], hostDetected)"
    by (rule conjunct1)
  from scenario have "\<forall>c s2. getCredentials hostWorld scenarioConfig freshState = (Inr c, s2) \<longrightarrow>
               c ''accessKeyId'' = Some ''AKIA1'' \<and> c ''secretAccessKey'' = Some ''s1'' \<and>
               c ''sessionToken'' = None \<and> c ''region'' = None \<and> trace s2 = trace hostDetected"
    by (rule conjunct2)
  with returned
  have "[''accessKeyId'' \<mapsto> ''AKIA1'', ''secretAccessKey'' \<mapsto> ''s1''] ''region'' = None"
    by blast
  moreover have "trace hostDetected = hostProbes"
    by (simp add: hostDetected_def)
  ultimately show ?thesis
    using host returned detectEnvironment_hostWorld' by blast
qed

text \<open>
  Claim C4 as stated fails: on the developer machine the call does not return the object
  \<open>{accessKeyId: AKIA1, secretAccessKey: s1, region: us-east-1}\<close>; what it returns has
  no \<open>region\<close>.
\<close>

theorem getCredentials_scenario_no_region:
  "fst (getCredentials hostWorld scenarioConfig freshState) \<noteq>
     Inr [''accessKeyId'' \<mapsto> ''AKIA1'', ''secretAccessKey'' \<mapsto> ''s1'',
          ''region'' \<mapsto> ''us-east-1'']
   \<and> fst (getCredentials hostWorld scenarioConfig freshState) =
     Inr [''accessKeyId'' \<mapsto> ''AKIA1'', ''secretAccessKey'' \<mapsto> ''s1'']
   \<and> [''accessKeyId'' \<mapsto> ''AKIA1'', ''secretAccessKey'' \<mapsto> ''s1''] ''region''
       \<noteq> Some ''us-east-1''"
proof -
  have "[''accessKeyId'' \<mapsto> ''AKIA1'', ''secretAccessKey'' \<mapsto> ''s1'', ''region'' \<mapsto> ''us-east-1'']
          ''region'' \<noteq>
        [''accessKeyId'' \<mapsto> ''AKIA1'', ''secretAccessKey'' \<mapsto> ''s1''] ''region''"
    by simp
  then have "[''accessKeyId'' \<mapsto> ''AKIA1'', ''secretAccessKey'' \<mapsto> ''s1''] \<noteq>
        [''accessKeyId'' \<mapsto> ''AKIA1'', ''secretAccessKey'' \<mapsto> ''s1'', ''region'' \<mapsto> ''us-east-1'']"
    by (rule contrapos_nn) (erule arg_cong [OF sym])
  then show ?thesis
    by (simp add: getCredentials_hostWorld)
qed

section \<open>The configuration parser\<close>

lemma truthy_orElse:
  "truthy (orElse a b) = (truthy a \<or> truthy b)"
  by (simp add: orElse_def)

lemma orElse_falsy:
  "\<not> truthy a \<Longrightarrow> orElse a b = b"
  by (simp add: orElse_def)

text \<open>
  Claim C7.  For a parsed configuration without a (truthy) region, the parser takes the
  region from the server environment: the first non-empty of \<open>AWS_BEDROCK_REGION\<close>,
  \<open>AWS_REGION\<close>, \<open>AWS_DEFAULT_REGION\<close>.  When one of them is set it succeeds with that
  region; when none is, it fails with the missing-region error.  For any parsed object,
  the parser fails exactly when neither the configuration nor the environment supplies a
  region, and then with that error.
\<close>

theorem parseAndValidateConfig_env_region:
  "(\<not> truthy (parsedConfig ''region'') \<and> truthy (environmentRegion serverEnv) \<longrightarrow>
      (\<exists>config. parseAndValidateConfig_env (Some parsedConfig) serverEnv = Inr config \<and>
                config ''region'' = environmentRegion serverEnv))
   \<and> (\<not> truthy (parsedConfig ''region'') \<and> \<not> truthy (environmentRegion serverEnv) \<longrightarrow>
      parseAndValidateConfig_env (Some parsedConfig) serverEnv =
        Inl (Error ''Missing AWS region. Provide it in AWS_BEDROCK_CONFIG or set AWS_BEDROCK_REGION.''))
   \<and> ((\<exists>e. parseAndValidateConfig_env (Some parsedConfig) serverEnv = Inl e) \<longleftrightarrow>
        \<not> truthy (parsedConfig ''region'') \<and> \<not> truthy (serverEnv ''AWS_BEDROCK_REGION'') \<and>
        \<not> truthy (serverEnv ''AWS_REGION'') \<and> \<not> truthy (serverEnv ''AWS_DEFAULT_REGION''))
   \<and> (truthy (environmentRegion serverEnv) \<longleftrightarrow>
        truthy (serverEnv ''AWS_BEDROCK_REGION'') \<or> truthy (serverEnv ''AWS_REGION'') \<or>
        truthy (serverEnv ''AWS_DEFAULT_REGION''))"
proof (intro conjI impI)
  assume a: "\<not> truthy (parsedConfig ''region'') \<and> truthy (environmentRegion serverEnv)"
  then have "orElse (orElse (orElse (parsedConfig ''region'') (serverEnv ''AWS_BEDROCK_REGION''))
                 (serverEnv ''AWS_REGION'')) (serverEnv ''AWS_DEFAULT_REGION'')
             = environmentRegion serverEnv"
    by (simp add: environmentRegion_def orElse_falsy)
  with a show "\<exists>config. parseAndValidateConfig_env (Some parsedConfig) serverEnv = Inr config \<and>
                config ''region'' = environmentRegion serverEnv"
    by (simp add: parseAndValidateConfig_env_def)
next
  assume a: "\<not> truthy (parsedConfig ''region'') \<and> \<not> truthy (environmentRegion serverEnv)"
  then have "orElse (orElse (orElse (parsedConfig ''region'') (serverEnv ''AWS_BEDROCK_REGION''))
                 (serverEnv ''AWS_REGION'')) (serverEnv ''AWS_DEFAULT_REGION'')
             = environmentRegion serverEnv"
    by (simp add: environmentRegion_def orElse_falsy)
  with a show "parseAndValidateConfig_env (Some parsedConfig) serverEnv =
        Inl (Error ''Missing AWS region. Provide it in AWS_BEDROCK_CONFIG or set AWS_BEDROCK_REGION.'')"
    by (simp add: parseAndValidateConfig_env_def)
next
  show "(\<exists>e. parseAndValidateConfig_env (Some parsedConfig) serverEnv = Inl e) \<longleftrightarrow>
        \<not> truthy (parsedConfig ''region'') \<and> \<not> truthy (serverEnv ''AWS_BEDROCK_REGION'') \<and>
        \<not> truthy (serverEnv ''AWS_REGION'') \<and> \<not> truthy (serverEnv ''AWS_DEFAULT_REGION'')"
    by (simp add: parseAndValidateConfig_env_def truthy_orElse Let_def)
next
  show "truthy (environmentRegion serverEnv) \<longleftrightarrow>
        truthy (serverEnv ''AWS_BEDROCK_REGION'') \<or> truthy (serverEnv ''AWS_REGION'') \<or>
        truthy (serverEnv ''AWS_DEFAULT_REGION'')"
    by (simp add: environmentRegion_def truthy_orElse)
qed

text \<open>
  The empty object with \<open>AWS_BEDROCK_REGION\<close> set parses to the object with that region
  alone; with an empty environment it fails.
\<close>

theorem parseAndValidateConfig_env_region_witness:
  "\<not> truthy (Map.empty ''region'')
   \<and> environmentRegion [''AWS_BEDROCK_REGION'' \<mapsto> ''us-west-2''] = Some ''us-west-2''
   \<and> parseAndValidateConfig_env (Some Map.empty) [''AWS_BEDROCK_REGION'' \<mapsto> ''us-west-2''] =
       Inr [''region'' \<mapsto> ''us-west-2'']
   \<and> \<not> truthy (environmentRegion Map.empty)
   \<and> parseAndValidateConfig_env (Some Map.empty) Map.empty =
       Inl (Error ''Missing AWS region. Provide it in AWS_BEDROCK_CONFIG or set AWS_BEDROCK_REGION.'')"
proof -
  have set: "environmentRegion [''AWS_BEDROCK_REGION'' \<mapsto> ''us-west-2''] = Some ''us-west-2''"
    by (simp add: environmentRegion_def orElse_def)
  have unset: "\<not> truthy (environmentRegion Map.empty)"
    by (simp add: environmentRegion_def orElse_def)
  have absent: "\<not> truthy (Map.empty ''region'')"
    by simp
  from parseAndValidateConfig_env_region [of Map.empty "[''AWS_BEDROCK_REGION'' \<mapsto> ''us-west-2'']"]
    set absent
  obtain config where
    "parseAndValidateConfig_env (Some Map.empty) [''AWS_BEDROCK_REGION'' \<mapsto> ''us-west-2'']
       = Inr config" and "config ''region'' = Some ''us-west-2''"
    by auto
  moreover have "parseAndValidateConfig_env (Some Map.empty)
       [''AWS_BEDROCK_REGION'' \<mapsto> ''us-west-2''] = Inr [''region'' \<mapsto> ''us-west-2'']"
    by (simp add: parseAndValidateConfig_env_def orElse_def whenTruthy_def)
  moreover from parseAndValidateConfig_env_region [of Map.empty Map.empty] unset absent
  have "parseAndValidateConfig_env (Some Map.empty) Map.empty =
       Inl (Error ''Missing AWS region. Provide it in AWS_BEDROCK_CONFIG or set AWS_BEDROCK_REGION.'')"
    by blast
  ultimately show ?thesis
    using set unset absent by blast
qed

text \<open>
  Claim C5, as amended.  For a parsed object with a region and exactly one of
  \<open>accessKeyId\<close>, \<open>secretAccessKey\<close> set (non-empty), the parser with optional explicit
  credentials fails with \<open>When using explicit credentials, both accessKeyId and
  secretAccessKey are required.\<close>  With a region it accepts exactly the objects that set
  both fields or neither.  Without a region it fails with the missing-region error,
  whatever the credential fields.  The parser with the SSO modes rejects an object
  without \<open>authType\<close> that sets exactly one of the two fields with its \<open>Missing required
  AWS credentials\<close> error.
\<close>

theorem parseAndValidateConfig_incomplete_static:
  "(truthy (parsedConfig ''region'') \<and>
      truthy (parsedConfig ''accessKeyId'') \<noteq> truthy (parsedConfig ''secretAccessKey'') \<longrightarrow>
      parseAndValidateConfig_explicit (Some parsedConfig) =
        Inl (Error ''When using explicit credentials, both accessKeyId and secretAccessKey are required.''))
   \<and> (truthy (parsedConfig ''region'') \<longrightarrow>
        ((\<exists>config. parseAndValidateConfig_explicit (Some parsedConfig) = Inr config) \<longleftrightarrow>
         truthy (parsedConfig ''accessKeyId'') = truthy (parsedConfig ''secretAccessKey'')))
   \<and> (\<not> truthy (parsedConfig ''region'') \<longrightarrow>
        parseAndValidateConfig_explicit (Some parsedConfig) =
          Inl (Error ''Missing required AWS region. Configuration must include region.''))
   \<and> (parsedConfig ''authType'' = None \<and>
      truthy (parsedConfig ''accessKeyId'') \<noteq> truthy (parsedConfig ''secretAccessKey'') \<longrightarrow>
      parseAndValidateConfig_sso (Some parsedConfig) =
        Inl (Error ''Missing required AWS credentials. Configuration must include region, accessKeyId, and secretAccessKey.''))"
proof (intro conjI impI)
  assume "truthy (parsedConfig ''region'') \<and>
      truthy (parsedConfig ''accessKeyId'') \<noteq> truthy (parsedConfig ''secretAccessKey'')"
  then show "parseAndValidateConfig_explicit (Some parsedConfig) =
        Inl (Error ''When using explicit credentials, both accessKeyId and secretAccessKey are required.'')"
    by (auto simp: parseAndValidateConfig_explicit_def Let_def)
next
  assume "truthy (parsedConfig ''region'')"
  then show "(\<exists>config. parseAndValidateConfig_explicit (Some parsedConfig) = Inr config) \<longleftrightarrow>
         truthy (parsedConfig ''accessKeyId'') = truthy (parsedConfig ''secretAccessKey'')"
    by (auto simp: parseAndValidateConfig_explicit_def Let_def)
next
  assume "\<not> truthy (parsedConfig ''region'')"
  then show "parseAndValidateConfig_explicit (Some parsedConfig) =
          Inl (Error ''Missing required AWS region. Configuration must include region.'')"
    by (simp add: parseAndValidateConfig_explicit_def Let_def)
next
  assume "parsedConfig ''authType'' = None \<and>
      truthy (parsedConfig ''accessKeyId'') \<noteq> truthy (parsedConfig ''secretAccessKey'')"
  then show "parseAndValidateConfig_sso (Some parsedConfig) =
        Inl (Error ''Missing required AWS credentials. Configuration must include region, accessKeyId, and secretAccessKey.'')"
    by (auto simp: parseAndValidateConfig_sso_def Let_def)
qed

theorem parseAndValidateConfig_incomplete_static_witness:
  "truthy ([''region'' \<mapsto> ''us-east-1'', ''accessKeyId'' \<mapsto> ''AKIA1''] ''region'')
   \<and> truthy ([''region'' \<mapsto> ''us-east-1'', ''accessKeyId'' \<mapsto> ''AKIA1''] ''accessKeyId'')
   \<and> \<not> truthy ([''region'' \<mapsto> ''us-east-1'', ''accessKeyId'' \<mapsto> ''AKIA1''] ''secretAccessKey'')
   \<and> [''region'' \<mapsto> ''us-east-1'', ''accessKeyId'' \<mapsto> ''AKIA1''] ''authType'' = None
   \<and> parseAndValidateConfig_explicit
        (Some [''region'' \<mapsto> ''us-east-1'', ''accessKeyId'' \<mapsto> ''AKIA1'']) =
       Inl (Error ''When using explicit credentials, both accessKeyId and secretAccessKey are required.'')
   \<and> parseAndValidateConfig_sso
        (Some [''region'' \<mapsto> ''us-east-1'', ''accessKeyId'' \<mapsto> ''AKIA1'']) =
       Inl (Error ''Missing required AWS credentials. Configuration must include region, accessKeyId, and secretAccessKey.'')
   \<and> parseAndValidateConfig_explicit (Some [''region'' \<mapsto> ''us-east-1'']) =
       Inr [''region'' \<mapsto> ''us-east-1'']
   \<and> parseAndValidateConfig_explicit (Some [''secretAccessKey'' \<mapsto> ''s1'']) =
       Inl (Error ''Missing required AWS region. Configuration must include region.'')"
proof -
  let ?one = "[''region'' \<mapsto> ''us-east-1'', ''accessKeyId'' \<mapsto> ''AKIA1'']"
  have shape: "truthy (?one ''region'') \<and> truthy (?one ''accessKeyId'')
     \<and> \<not> truthy (?one ''secretAccessKey'') \<and> ?one ''authType'' = None"
    by simp
  with parseAndValidateConfig_incomplete_static [of ?one]
  have rejected: "parseAndValidateConfig_explicit (Some ?one) =
       Inl (Error ''When using explicit credentials, both accessKeyId and secretAccessKey are required.'')
     \<and> parseAndValidateConfig_sso (Some ?one) =
       Inl (Error ''Missing required AWS credentials. Configuration must include region, accessKeyId, and secretAccessKey.'')"
    by blast
  have "\<not> truthy ([''secretAccessKey'' \<mapsto> ''s1''] ''region'')"
    by simp
  with parseAndValidateConfig_incomplete_static [of "[''secretAccessKey'' \<mapsto> ''s1'']"]
  have noregion: "parseAndValidateConfig_explicit (Some [''secretAccessKey'' \<mapsto> ''s1'']) =
       Inl (Error ''Missing required AWS region. Configuration must include region.'')"
    by blast
  have accepted: "parseAndValidateConfig_explicit (Some [''region'' \<mapsto> ''us-east-1'']) =
       Inr [''region'' \<mapsto> ''us-east-1'']"
    by (simp add: parseAndValidateConfig_explicit_def whenTruthy_def)
  from shape rejected noregion accepted show ?thesis by blast
qed

text \<open>
  Claim C5 as stated fails: the object \<open>{accessKeyId: AKIA1}\<close> has no \<open>authType\<close> and
  exactly one of the two fields, and the parser fails with the missing-region error, not
  with the incomplete-credentials error.
\<close>

theorem parseAndValidateConfig_incomplete_static_no_region:
  "parseAndValidateConfig_explicit (Some [''accessKeyId'' \<mapsto> ''AKIA1'']) =
     Inl (Error ''Missing required AWS region. Configuration must include region.'')
   \<and> parseAndValidateConfig_explicit (Some [''accessKeyId'' \<mapsto> ''AKIA1'']) \<noteq>
     Inl (Error ''When using explicit credentials, both accessKeyId and secretAccessKey are required.'')"
  by (simp add: parseAndValidateConfig_explicit_def)

lemma detectEnvironment_cliWorld:
  "detectEnvironment cliWorld freshState = (Inr cliEnvironment, cliDetected)"
  by (simp add: detectEnvironment_def probe_defs io_defs cliWorld_def hostWorld_def
      freshState_def cliEnvironment_def hostEnvironment_def hostProbes_def cliDetected_def)

text \<open>
  Claim C6, as amended.  For a parsed object with \<open>authType = sso\<close>, a region, no profile
  and no \<open>ssoStartUrl\<close>, the parser fails with its incomplete-SSO error; without a region
  it fails with the missing-region error first.  Independently the local-SSO strategy of
  the resolver throws its own incomplete-SSO error for a configuration with no profile
  and no \<open>ssoStartUrl\<close>, without any request, and \<open>getCredentials\<close> rethrows it under its
  prefix when that strategy is selected.
\<close>

theorem incomplete_sso_config_rejected:
  "(parsedConfig ''authType'' = Some ''sso'' \<and> truthy (parsedConfig ''region'') \<and>
      \<not> truthy (parsedConfig ''profile'') \<and> \<not> truthy (parsedConfig ''ssoStartUrl'') \<longrightarrow>
      parseAndValidateConfig_sso (Some parsedConfig) =
        Inl (Error ''AWS SSO configuration must include either a profile name or SSO details (ssoStartUrl, ssoRegion).''))
   \<and> (parsedConfig ''authType'' = Some ''sso'' \<and> \<not> truthy (parsedConfig ''region'') \<longrightarrow>
      parseAndValidateConfig_sso (Some parsedConfig) =
        Inl (Error ''Missing required region for AWS configuration.''))
   \<and> (\<not> truthy (profile config) \<and> \<not> truthy (ssoStartUrl config) \<longrightarrow>
      getDevelopmentSSOCredentials w config s =
        (Inl (Error ''SSO configuration requires either profile or SSO details''), s))
   \<and> (detectEnvironment w s = (Inr env, s1) \<and>
      \<not> (isContainer env \<and> (isECS env \<or> isEKS env \<or> hasIamRole env)) \<and>
      hasAwsCli env \<and> authType config = Some SSO \<and>
      \<not> truthy (profile config) \<and> \<not> truthy (ssoStartUrl config) \<longrightarrow>
      getCredentials w config s =
        (Inl (Error ''AWS credential resolution failed: SSO configuration requires either profile or SSO details''),
         s1))"
proof (intro conjI impI)
  assume "parsedConfig ''authType'' = Some ''sso'' \<and> truthy (parsedConfig ''region'') \<and>
      \<not> truthy (parsedConfig ''profile'') \<and> \<not> truthy (parsedConfig ''ssoStartUrl'')"
  then show "parseAndValidateConfig_sso (Some parsedConfig) =
        Inl (Error ''AWS SSO configuration must include either a profile name or SSO details (ssoStartUrl, ssoRegion).'')"
    by (simp add: parseAndValidateConfig_sso_def Let_def)
next
  assume "parsedConfig ''authType'' = Some ''sso'' \<and> \<not> truthy (parsedConfig ''region'')"
  then show "parseAndValidateConfig_sso (Some parsedConfig) =
        Inl (Error ''Missing required region for AWS configuration.'')"
    by (simp add: parseAndValidateConfig_sso_def Let_def)
next
  assume "\<not> truthy (profile config) \<and> \<not> truthy (ssoStartUrl config)"
  then show "getDevelopmentSSOCredentials w config s =
        (Inl (Error ''SSO configuration requires either profile or SSO details''), s)"
    by (simp add: getDevelopmentSSOCredentials_def throw_def)
next
  assume a: "detectEnvironment w s = (Inr env, s1) \<and>
      \<not> (isContainer env \<and> (isECS env \<or> isEKS env \<or> hasIamRole env)) \<and>
      hasAwsCli env \<and> authType config = Some SSO \<and>
      \<not> truthy (profile config) \<and> \<not> truthy (ssoStartUrl config)"
  then have d: "detectEnvironment w s = (Inr env, s1)" by blast
  from a show "getCredentials w config s =
        (Inl (Error ''AWS credential resolution failed: SSO configuration requires either profile or SSO details''),
         s1)"
    by (auto simp: getCredentials_after_detection [OF d] getDevelopmentSSOCredentials_def
        tryCatch_def throw_def)
qed

text \<open>
  The scenario \<open>{authType: sso, region: us-west-2}\<close> at the parser, the same object without
  its region, and the bare SSO configuration at the resolver on a machine with the CLI.
\<close>

theorem incomplete_sso_config_rejected_witness:
  "parseAndValidateConfig_sso (Some [''authType'' \<mapsto> ''sso'', ''region'' \<mapsto> ''us-west-2'']) =
     Inl (Error ''AWS SSO configuration must include either a profile name or SSO details (ssoStartUrl, ssoRegion).'')
   \<and> parseAndValidateConfig_sso (Some [''authType'' \<mapsto> ''sso'', ''profile'' \<mapsto> ''dev'']) =
     Inl (Error ''Missing required region for AWS configuration.'')
   \<and> getDevelopmentSSOCredentials cliWorld ssoBareConfig cliDetected =
     (Inl (Error ''SSO configuration requires either profile or SSO details''), cliDetected)
   \<and> detectEnvironment cliWorld freshState = (Inr cliEnvironment, cliDetected)
   \<and> \<not> isContainer cliEnvironment \<and> hasAwsCli cliEnvironment
   \<and> authType ssoBareConfig = Some SSO
   \<and> getCredentials cliWorld ssoBareConfig freshState =
     (Inl (Error ''AWS credential resolution failed: SSO configuration requires either profile or SSO details''),
      cliDetected)"
proof -
  let ?scenario = "[''authType'' \<mapsto> ''sso'', ''region'' \<mapsto> ''us-west-2'']"
  let ?noregion = "[''authType'' \<mapsto> ''sso'', ''profile'' \<mapsto> ''dev'']"
  have "?scenario ''authType'' = Some ''sso'' \<and> truthy (?scenario ''region'') \<and>
      \<not> truthy (?scenario ''profile'') \<and> \<not> truthy (?scenario ''ssoStartUrl'')"
    by simp
  with incomplete_sso_config_rejected [of ?scenario]
  have parser: "parseAndValidateConfig_sso (Some ?scenario) =
     Inl (Error ''AWS SSO configuration must include either a profile name or SSO details (ssoStartUrl, ssoRegion).'')"
    by blast
  have "?noregion ''authType'' = Some ''sso'' \<and> \<not> truthy (?noregion ''region'')"
    by simp
  with incomplete_sso_config_rejected [of ?noregion]
  have noregion: "parseAndValidateConfig_sso (Some ?noregion) =
     Inl (Error ''Missing required region for AWS configuration.'')"
    by blast
  have env: "\<not> isContainer cliEnvironment \<and> hasAwsCli cliEnvironment"
    by (simp add: cliEnvironment_def hostEnvironment_def)
  have config: "authType ssoBareConfig = Some SSO \<and> \<not> truthy (profile ssoBareConfig) \<and>
      \<not> truthy (ssoStartUrl ssoBareConfig)"
    by (simp add: ssoBareConfig_def)
  from incomplete_sso_config_rejected [of _ ssoBareConfig cliWorld cliDetected] config
  have strategy: "getDevelopmentSSOCredentials cliWorld ssoBareConfig cliDetected =
     (Inl (Error ''SSO configuration requires either profile or SSO details''), cliDetected)"
    by blast
  from incomplete_sso_config_rejected
    [of _ ssoBareConfig cliWorld freshState cliEnvironment cliDetected]
    config env detectEnvironment_cliWorld
  have resolver: "getCredentials cliWorld ssoBareConfig freshState =
     (Inl (Error ''AWS credential resolution failed: SSO configuration requires either profile or SSO details''),
      cliDetected)"
    by blast
  from parser noregion strategy resolver env config detectEnvironment_cliWorld
  show ?thesis by blast
qed

text \<open>
  Claim C6 as stated fails at the parser: \<open>{authType: sso}\<close> has no profile and no
  \<open>ssoStartUrl\<close>, and the parser fails with the missing-region error.
\<close>

theorem incomplete_sso_config_no_region:
  "parseAndValidateConfig_sso (Some [''authType'' \<mapsto> ''sso'']) =
     Inl (Error ''Missing required region for AWS configuration.'')
   \<and> parseAndValidateConfig_sso (Some [''authType'' \<mapsto> ''sso'']) \<noteq>
     Inl (Error ''AWS SSO configuration must include either a profile name or SSO details (ssoStartUrl, ssoRegion).'')"
  by (simp add: parseAndValidateConfig_sso_def)

section \<open>Listing the local profiles\<close>

text \<open>Both services return a list in every world: a failed read gives the empty list.\<close>

lemma sso_getAvailableProfiles_total:
  "\<exists>profiles s2. sso_getAvailableProfiles w s = (Inr profiles, s2)"
  unfolding sso_getAvailableProfiles_def by (rule tryCatch_return_total)

lemma getAvailableProfiles_total:
  "\<exists>profiles s2. getAvailableProfiles w s = (Inr profiles, s2)"
proof -
  obtain env s1 where d: "detectEnvironment w s = (Inr env, s1)"
    using detectEnvironment_total by blast
  show ?thesis
  proof (cases "isContainer env")
    case True
    with d show ?thesis by (simp add: getAvailableProfiles_def bind_def return_def)
  next
    case False
    with d tryCatch_return_total show ?thesis
      by (simp add: getAvailableProfiles_def bind_def)
  qed
qed

text \<open>
  In \<open>AWSSSOService\<close> a line contributes a name only as a well-formed header: the trimmed
  line is \<open>[default]\<close>, or it is \<open>[profile \<close>, the name, \<open>]\<close>.
\<close>

lemma bracketed_header:
  assumes "startsWith t ''[profile ''" and "endsWith t '']''"
  shows "t = ''[profile '' @ slice_9_m1 t @ '']''"
proof -
  have l9: "length ''[profile '' = 9"
    by simp
  from assms(1) have pre: "take 9 t = ''[profile ''"
    unfolding startsWith_def l9 .
  from assms(2) have ne: "t \<noteq> []" and "drop (length t - 1) t = '']''"
    by (auto simp: endsWith_def)
  then have lst: "last t = CHR '']''"
    by (metis last_drop last_snoc append_Nil diff_less length_greater_0_conv zero_less_one)
  have "length (take 9 t) = 9"
    by (simp only: pre l9)
  then have "9 \<le> length t"
    by simp
  moreover have "length t \<noteq> 9"
  proof
    assume "length t = 9"
    with pre have "t = ''[profile ''" by simp
    with lst show False by simp
  qed
  ultimately have len: "9 \<le> length (butlast t)" by simp
  then have "take 9 (butlast t) = take 9 t"
    by (simp add: take_butlast)
  with pre have "butlast t = ''[profile '' @ drop 9 (butlast t)"
    by (metis append_take_drop_id)
  with ne lst show ?thesis
    by (metis append_butlast_last_id append_assoc slice_9_m1_def)
qed

lemma sso_profilesOfLines_wellformed:
  assumes "name \<in> set (sso_profilesOfLines lines)"
  shows "\<exists>line \<in> set lines.
           (trim line = ''[default]'' \<and> name = ''default'') \<or>
           trim line = ''[profile '' @ name @ '']''"
  using assms
proof (induction lines)
  case Nil
  then show ?case by simp
next
  case (Cons line lines)
  then show ?case
    by (auto simp: Let_def dest: bracketed_header split: if_splits)
qed

text \<open>
  Claim C9.  On the developer machine whose configuration file has the header
  \<open>[profile dev\<close> without its closing bracket, \<open>getAvailableProfiles\<close> of
  \<open>AWSCredentialService\<close> returns the name \<open>de\<close> for that line, cut from the malformed
  header, where the same operation of \<open>AWSSSOService\<close> skips the line.
\<close>

theorem getAvailableProfiles_mangles_unclosed_header:
  "fst (getAvailableProfiles devWorld freshState) = Inr [''default'', ''de'', ''prod'']
   \<and> fst (sso_getAvailableProfiles devWorld freshState) = Inr [''default'', ''prod'']"
proof -
  have whiteSpace: "\<And>c. isWhiteSpace c =
      (c = CHR 0x09 \<or> c = CHR 0x0A \<or> c = CHR 0x0B \<or> c = CHR 0x0C \<or> c = CHR 0x0D \<or>
       c = CHR '' '' \<or> c = CHR 0xA0)"
    subgoal for c by (cases c) (auto simp: isWhiteSpace_def)
    done
  have lines: "split_lines brokenConfigFile =
      [''[default]'', ''region = us-east-1'', ''[profile dev'', ''region = eu-west-1'',
       ''[profile prod]'', []]"
    by (simp add: brokenConfigFile_def)
  have cred: "profilesOfLines (split_lines brokenConfigFile) = [''default'', ''de'', ''prod'']"
    unfolding lines by (simp add: trim_def whiteSpace startsWith_def slice_9_m1_def)
  have sso: "sso_profilesOfLines (split_lines brokenConfigFile) = [''default'', ''prod'']"
    unfolding lines
    by (simp add: trim_def whiteSpace startsWith_def endsWith_def slice_9_m1_def)
  have host: "\<not> isContainer hostEnvironment"
    by (simp add: hostEnvironment_def)
  have detect: "detectEnvironment devWorld freshState =
      (Inr hostEnvironment,
       \<lparr>environmentInfo = Some hostEnvironment,
          trace = [ExistsSync ''/.dockerenv'', ExistsSync ''/proc/1/cgroup'',
            GetEnv ''AWS_EXECUTION_ENV'', GetEnv ''ECS_CONTAINER_METADATA_URI'',
            GetEnv ''ECS_CONTAINER_METADATA_URI_V4'',
            ExistsSync ''/var/run/secrets/kubernetes.io/serviceaccount/token'',
            Exec ''aws --version'',
            Fetch ''http://169.254.169.254/latest/meta-data/iam/security-credentials/'']\<rparr>)"
    by (simp add: detectEnvironment_def probe_defs io_defs devWorld_def hostWorld_def
        freshState_def hostEnvironment_def)
  have "fst (getAvailableProfiles devWorld freshState) =
      Inr (profilesOfLines (split_lines brokenConfigFile))"
    using host
    by (simp add: getAvailableProfiles_def bind_def detect)
      (simp add: existsSync_def readFileSync_def io_defs devWorld_def hostWorld_def)
  moreover have "fst (sso_getAvailableProfiles devWorld freshState) =
      Inr (sso_profilesOfLines (split_lines brokenConfigFile))"
    by (simp add: sso_getAvailableProfiles_def existsSync_def readFileSync_def io_defs
        devWorld_def hostWorld_def)
  ultimately show ?thesis
    by (simp only: cred sso)
qed

end
